theory Spec2Isabelle
  imports Complex_Main "HOL-Library.Sublist" "HOL-Library.Word"
begin

section \<open>Data model (types.ts)\<close>

text \<open>
  JavaScript numbers are modelled as real numbers: every arithmetic statement below is
  about exact arithmetic. Field names that would clash with constants of the library or
  that are single letters carry a short prefix: \<open>id\<close> is \<open>nid\<close> on nodes and \<open>cid\<close> on
  connections, \<open>x\<close> and \<open>y\<close> of a position are \<open>px\<close> and \<open>py\<close>.
\<close>

record NodePosition =
  px :: real
  py :: real

text \<open>
  The three node interfaces share \<open>id\<close>, \<open>name\<close> and the optional \<open>position\<close>; these
  form the base record, which each interface extends with its own fields.
\<close>

record Node =
  nid :: string
  name :: string
  position :: "NodePosition option"

record DataSource = Node +
  database :: string
  schema :: string
  tables :: string
  dataType :: string
  volume :: string
  frequency :: string

record TransformationNode = Node +
  processingType :: string
  description :: string

record DataTarget = Node +
  storageFormat :: string
  partitioning :: string

record Connection =
  cid :: string
  sourceId :: string
  targetId :: string

text \<open>
  The technical requirements are the one string that the program trims. What
  \<open>String.prototype.trim\<close> removes is decided by code points outside ASCII too, so this
  string is held as JavaScript holds it, as a sequence of 16-bit code units.
\<close>

type_synonym jsString = "16 word list"

record DeRequestState =
  techRequirements :: jsString
  productRequirements :: string
  existingTools :: "string list"
  dataSources :: "DataSource list"
  transformationNodes :: "TransformationNode list"
  dataTargets :: "DataTarget list"
  connections :: "Connection list"

section \<open>Graph operations of the application component\<close>

text \<open>
  Each operation is a state updater \<open>prev \<Rightarrow> next\<close>, as handed to \<open>setFormState\<close>.
  A \<open>Partial\<close> object merged into a node by \<open>{...node, ...data}\<close> is the function that
  overwrites the fields present in it.
\<close>

definition updateSourceNode ::
  "string \<Rightarrow> (DataSource \<Rightarrow> DataSource) \<Rightarrow> DeRequestState \<Rightarrow> DeRequestState" where
  "updateSourceNode i data prev =
     prev\<lparr>dataSources := map (\<lambda>node. if nid node = i then data node else node) (dataSources prev)\<rparr>"

definition updateTransformationNode ::
  "string \<Rightarrow> (TransformationNode \<Rightarrow> TransformationNode) \<Rightarrow> DeRequestState \<Rightarrow> DeRequestState" where
  "updateTransformationNode i data prev =
     prev\<lparr>transformationNodes :=
       map (\<lambda>node. if nid node = i then data node else node) (transformationNodes prev)\<rparr>"

definition updateTargetNode ::
  "string \<Rightarrow> (DataTarget \<Rightarrow> DataTarget) \<Rightarrow> DeRequestState \<Rightarrow> DeRequestState" where
  "updateTargetNode i data prev =
     prev\<lparr>dataTargets := map (\<lambda>node. if nid node = i then data node else node) (dataTargets prev)\<rparr>"

definition removeSourceNode :: "string \<Rightarrow> DeRequestState \<Rightarrow> DeRequestState" where
  "removeSourceNode i prev =
     prev\<lparr>dataSources := filter (\<lambda>node. nid node \<noteq> i) (dataSources prev),
          connections := filter (\<lambda>c. sourceId c \<noteq> i \<and> targetId c \<noteq> i) (connections prev)\<rparr>"

definition removeTransformationNode :: "string \<Rightarrow> DeRequestState \<Rightarrow> DeRequestState" where
  "removeTransformationNode i prev =
     prev\<lparr>transformationNodes := filter (\<lambda>node. nid node \<noteq> i) (transformationNodes prev),
          connections := filter (\<lambda>c. sourceId c \<noteq> i \<and> targetId c \<noteq> i) (connections prev)\<rparr>"

definition removeTargetNode :: "string \<Rightarrow> DeRequestState \<Rightarrow> DeRequestState" where
  "removeTargetNode i prev =
     prev\<lparr>dataTargets := filter (\<lambda>node. nid node \<noteq> i) (dataTargets prev),
          connections := filter (\<lambda>c. sourceId c \<noteq> i \<and> targetId c \<noteq> i) (connections prev)\<rparr>"

text \<open>
  \<open>addConnection\<close> reads the connection list of the state the handler closes over
  (\<open>formState\<close>) for its two guards and appends to the state the updater receives
  (\<open>prev\<close>). The identifier is the value \<open>crypto.randomUUID()\<close> returned, a parameter here.
\<close>

definition addConnection ::
  "DeRequestState \<Rightarrow> string \<Rightarrow> string \<Rightarrow> string \<Rightarrow> DeRequestState \<Rightarrow> DeRequestState" where
  "addConnection formState uuid src tgt prev =
     (if src = tgt then prev
      else if list_ex (\<lambda>c. sourceId c = src \<and> targetId c = tgt) (connections formState) then prev
      else prev\<lparr>connections := connections prev @ [\<lparr>cid = uuid, sourceId = src, targetId = tgt\<rparr>]\<rparr>)"

definition removeConnection :: "string \<Rightarrow> DeRequestState \<Rightarrow> DeRequestState" where
  "removeConnection i prev = prev\<lparr>connections := filter (\<lambda>c. cid c \<noteq> i) (connections prev)\<rparr>"

text \<open>\<open>findNode\<close> of the builder: sources first, then transformations, then targets.\<close>

datatype AnyNode = SourceNode DataSource | TransformNode TransformationNode | TargetNode DataTarget

definition findNode :: "DeRequestState \<Rightarrow> string \<Rightarrow> AnyNode option" where
  "findNode g i =
     (case find (\<lambda>s. nid s = i) (dataSources g) of
        Some s \<Rightarrow> Some (SourceNode s)
      | None \<Rightarrow>
         (case find (\<lambda>t. nid t = i) (transformationNodes g) of
            Some t \<Rightarrow> Some (TransformNode t)
          | None \<Rightarrow> map_option TargetNode (find (\<lambda>t. nid t = i) (dataTargets g))))"

text \<open>A connection resolves when both of its endpoints are found.\<close>

definition resolves :: "DeRequestState \<Rightarrow> Connection \<Rightarrow> bool" where
  "resolves g c = (findNode g (sourceId c) \<noteq> None \<and> findNode g (targetId c) \<noteq> None)"

text \<open>A state without any node, and the initial state of the application.\<close>

definition emptyState :: DeRequestState where
  "emptyState = \<lparr>techRequirements = [], productRequirements = [], existingTools = [],
     dataSources = [], transformationNodes = [], dataTargets = [], connections = []\<rparr>"

definition initialState :: DeRequestState where
  "initialState = \<lparr>techRequirements = [], productRequirements = [],
     existingTools = [''BigQuery'', ''S3''],
     dataSources = [\<lparr>nid = ''1'', name = ''MySQL'', position = Some \<lparr>px = 50, py = 50\<rparr>,
        database = ''payments_prod'', schema = ''public'', tables = ''transactions, users'',
        dataType = ''Relational'', volume = ''2M rows'', frequency = ''Daily''\<rparr>],
     transformationNodes = [\<lparr>nid = ''t1'', name = ''Clean & Join'',
        position = Some \<lparr>px = 350, py = 50\<rparr>, processingType = ''dbt'',
        description = ''Clean nulls and join users with transactions''\<rparr>],
     dataTargets = [\<lparr>nid = ''10'', name = ''Redshift'', position = Some \<lparr>px = 650, py = 50\<rparr>,
        storageFormat = ''Columnar'', partitioning = ''Day''\<rparr>],
     connections = [\<lparr>cid = ''c1'', sourceId = ''1'', targetId = ''t1''\<rparr>,
                    \<lparr>cid = ''c2'', sourceId = ''t1'', targetId = ''10''\<rparr>]\<rparr>"

section \<open>The visual builder: viewport, pointer state and handlers\<close>

text \<open>
  The repository holds two builders. The one in \<open>src/components/VisualBuilder.tsx\<close> has no
  viewport and no transformation nodes; its handlers carry the suffix \<open>_basic\<close>. The later
  one adds the viewport state (pan and zoom) and transformation nodes; its handlers keep
  the names of the source. The pointer state of the first is the base record, which the
  second extends.

  \<open>x\<close>, \<open>y\<close> of the viewport are \<open>vx\<close>, \<open>vy\<close>; \<open>rect\<close> is the result of
  \<open>canvasRef.current.getBoundingClientRect()\<close>, and \<open>None\<close> stands for
  \<open>canvasRef.current\<close> being null.
\<close>

record Viewport =
  vx :: real
  vy :: real
  zoom :: real

record Rect =
  rect_left :: real
  rect_top :: real
  rect_width :: real
  rect_height :: real

record MouseEvent =
  clientX :: real
  clientY :: real
  button :: int

record WheelEvent = MouseEvent +
  deltaY :: real

record Builder =
  isExpanded :: bool
  draggingId :: "string option"
  dragOffset :: NodePosition
  hasMoved :: bool
  connectingSourceId :: "string option"
  mousePos :: "NodePosition option"

record ViewBuilder = Builder +
  viewport :: Viewport
  isPanning :: bool
  lastMouse :: NodePosition

text \<open>A \<open>string | null\<close> used as a condition: null and the empty string are falsy.\<close>

fun truthy :: "string option \<Rightarrow> bool" where
  "truthy None = False"
| "truthy (Some s) = (s \<noteq> [])"

definition initialBuilder :: ViewBuilder where
  "initialBuilder = \<lparr>isExpanded = False, draggingId = None, dragOffset = \<lparr>px = 0, py = 0\<rparr>,
     hasMoved = False, connectingSourceId = None, mousePos = None,
     viewport = \<lparr>vx = 0, vy = 0, zoom = 1\<rparr>, isPanning = False,
     lastMouse = \<lparr>px = 0, py = 0\<rparr>\<rparr>"

definition screenToWorld :: "Rect option \<Rightarrow> Viewport \<Rightarrow> real \<Rightarrow> real \<Rightarrow> NodePosition" where
  "screenToWorld canvas v screenX screenY =
     (case canvas of
        None \<Rightarrow> \<lparr>px = 0, py = 0\<rparr>
      | Some rect \<Rightarrow>
          \<lparr>px = (screenX - rect_left rect - vx v) / zoom v,
           py = (screenY - rect_top rect - vy v) / zoom v\<rparr>)"

definition handleWheel :: "Rect option \<Rightarrow> WheelEvent \<Rightarrow> ViewBuilder \<Rightarrow> ViewBuilder" where
  "handleWheel canvas e b =
     (case canvas of
        None \<Rightarrow> b
      | Some rect \<Rightarrow>
         (let zoomSensitivity = - (1 / 1000);
              delta = deltaY e * zoomSensitivity;
              newZoom = max (1 / 10) (min 5 (zoom (viewport b) * (1 + delta)));
              mouseX = clientX e - rect_left rect;
              mouseY = clientY e - rect_top rect;
              worldX = (mouseX - vx (viewport b)) / zoom (viewport b);
              worldY = (mouseY - vy (viewport b)) / zoom (viewport b);
              newX = mouseX - worldX * newZoom;
              newY = mouseY - worldY * newZoom
          in b\<lparr>viewport := \<lparr>vx = newX, vy = newY, zoom = newZoom\<rparr>\<rparr>))"

definition handleMouseDown :: "MouseEvent \<Rightarrow> ViewBuilder \<Rightarrow> ViewBuilder" where
  "handleMouseDown e b =
     (if button e = 1 \<or> button e = 0
      then b\<lparr>isPanning := True, lastMouse := \<lparr>px = clientX e, py = clientY e\<rparr>\<rparr>
      else b)"

definition resetView :: "ViewBuilder \<Rightarrow> ViewBuilder" where
  "resetView b = b\<lparr>viewport := \<lparr>vx = 0, vy = 0, zoom = 1\<rparr>\<rparr>"

definition handleZoomIn :: "Rect option \<Rightarrow> ViewBuilder \<Rightarrow> ViewBuilder" where
  "handleZoomIn canvas b =
     (case canvas of
        None \<Rightarrow> b
      | Some rect \<Rightarrow>
         (let centerX = rect_width rect / 2;
              centerY = rect_height rect / 2;
              newZoom = min 5 (zoom (viewport b) * (12 / 10));
              worldX = (centerX - vx (viewport b)) / zoom (viewport b);
              worldY = (centerY - vy (viewport b)) / zoom (viewport b);
              newX = centerX - worldX * newZoom;
              newY = centerY - worldY * newZoom
          in b\<lparr>viewport := \<lparr>vx = newX, vy = newY, zoom = newZoom\<rparr>\<rparr>))"

definition handleZoomOut :: "Rect option \<Rightarrow> ViewBuilder \<Rightarrow> ViewBuilder" where
  "handleZoomOut canvas b =
     (case canvas of
        None \<Rightarrow> b
      | Some rect \<Rightarrow>
         (let centerX = rect_width rect / 2;
              centerY = rect_height rect / 2;
              newZoom = max (1 / 10) (zoom (viewport b) / (12 / 10));
              worldX = (centerX - vx (viewport b)) / zoom (viewport b);
              worldY = (centerY - vy (viewport b)) / zoom (viewport b);
              newX = centerX - worldX * newZoom;
              newY = centerY - worldY * newZoom
          in b\<lparr>viewport := \<lparr>vx = newX, vy = newY, zoom = newZoom\<rparr>\<rparr>))"

definition startNodeDrag ::
  "Rect option \<Rightarrow> MouseEvent \<Rightarrow> string \<Rightarrow> NodePosition option \<Rightarrow> ViewBuilder \<Rightarrow> ViewBuilder" where
  "startNodeDrag canvas e i currentPos b =
     (if truthy (connectingSourceId b) then b
      else if button e \<noteq> 0 then b
      else
        (let b1 = b\<lparr>draggingId := Some i, hasMoved := False\<rparr>;
             worldMouse = screenToWorld canvas (viewport b) (clientX e) (clientY e)
         in case currentPos of
              None \<Rightarrow> b1
            | Some p \<Rightarrow>
                b1\<lparr>dragOffset := \<lparr>px = px worldMouse - px p, py = py worldMouse - py p\<rparr>\<rparr>))"

definition startWiring :: "Rect option \<Rightarrow> MouseEvent \<Rightarrow> string \<Rightarrow> ViewBuilder \<Rightarrow> ViewBuilder" where
  "startWiring canvas e i b =
     b\<lparr>connectingSourceId := Some i,
       mousePos := Some (screenToWorld canvas (viewport b) (clientX e) (clientY e))\<rparr>"

definition startWiring_basic ::
  "Rect option \<Rightarrow> MouseEvent \<Rightarrow> string \<Rightarrow> Builder \<Rightarrow> Builder" where
  "startWiring_basic canvas e i b =
     (case canvas of
        None \<Rightarrow> b\<lparr>connectingSourceId := Some i\<rparr>
      | Some rect \<Rightarrow>
          b\<lparr>connectingSourceId := Some i,
            mousePos := Some \<lparr>px = clientX e - rect_left rect, py = clientY e - rect_top rect\<rparr>\<rparr>)"

text \<open>
  \<open>endWiring\<close> has the same text in both builders. \<open>onAddConnection\<close> is the
  application's \<open>addConnection\<close>, which closes over the state \<open>g\<close> that was rendered.
\<close>

definition endWiring ::
  "string \<Rightarrow> string \<Rightarrow> 'a Builder_scheme \<times> DeRequestState \<Rightarrow> 'a Builder_scheme \<times> DeRequestState"
  where
  "endWiring uuid tgt st =
     (case st of (b, g) \<Rightarrow>
        (b\<lparr>connectingSourceId := None, mousePos := None\<rparr>,
         (case connectingSourceId b of
            None \<Rightarrow> g
          | Some src \<Rightarrow> if src \<noteq> [] \<and> src \<noteq> tgt then addConnection g uuid src tgt g else g)))"

definition onMouseMove ::
  "Rect option \<Rightarrow> MouseEvent \<Rightarrow> ViewBuilder \<times> DeRequestState \<Rightarrow> ViewBuilder \<times> DeRequestState"
  where
  "onMouseMove canvas e st =
     (case st of (b, g) \<Rightarrow>
        if canvas = None then st
        else if isPanning b then
          (let dx = clientX e - px (lastMouse b);
               dy = clientY e - py (lastMouse b)
           in (b\<lparr>viewport := (viewport b)\<lparr>vx := vx (viewport b) + dx, vy := vy (viewport b) + dy\<rparr>,
                 lastMouse := \<lparr>px = clientX e, py = clientY e\<rparr>\<rparr>, g))
        else
          (let worldMouse = screenToWorld canvas (viewport b) (clientX e) (clientY e) in
           if truthy (connectingSourceId b) then (b\<lparr>mousePos := Some worldMouse\<rparr>, g)
           else
             (case draggingId b of
                None \<Rightarrow> st
              | Some d \<Rightarrow>
                  if d = [] then st
                  else
                    (let b1 = b\<lparr>hasMoved := True\<rparr>;
                         newX = px worldMouse - px (dragOffset b);
                         newY = py worldMouse - py (dragOffset b);
                         clampedX = max (- 500) newX;
                         clampedY = max (- 500) newY;
                         p = \<lparr>px = clampedX, py = clampedY\<rparr>
                     in case find (\<lambda>s. nid s = d) (dataSources g) of
                          Some source \<Rightarrow>
                            (b1, updateSourceNode (nid source) (\<lambda>n. n\<lparr>position := Some p\<rparr>) g)
                        | None \<Rightarrow>
                           (case find (\<lambda>t. nid t = d) (transformationNodes g) of
                              Some transform \<Rightarrow>
                                (b1, updateTransformationNode (nid transform)
                                       (\<lambda>n. n\<lparr>position := Some p\<rparr>) g)
                            | None \<Rightarrow>
                               (case find (\<lambda>t. nid t = d) (dataTargets g) of
                                  Some target \<Rightarrow>
                                    (b1, updateTargetNode (nid target)
                                           (\<lambda>n. n\<lparr>position := Some p\<rparr>) g)
                                | None \<Rightarrow> (b1, g)))))))"

definition onMouseMove_basic ::
  "Rect option \<Rightarrow> MouseEvent \<Rightarrow> Builder \<times> DeRequestState \<Rightarrow> Builder \<times> DeRequestState" where
  "onMouseMove_basic canvas e st =
     (case st of (b, g) \<Rightarrow>
        (case canvas of
           None \<Rightarrow> st
         | Some rect \<Rightarrow>
            if truthy (connectingSourceId b)
            then (b\<lparr>mousePos := Some \<lparr>px = clientX e - rect_left rect,
                                      py = clientY e - rect_top rect\<rparr>\<rparr>, g)
            else
              (case draggingId b of
                 None \<Rightarrow> st
               | Some d \<Rightarrow>
                   if d = [] then st
                   else
                     (let b1 = b\<lparr>hasMoved := True\<rparr>;
                          newX = clientX e - px (dragOffset b);
                          newY = clientY e - py (dragOffset b);
                          maxX = (if isExpanded b then rect_width rect - 200
                                  else rect_width rect - 200);
                          maxY = (if isExpanded b then rect_height rect - 80
                                  else rect_height rect - 80);
                          clampedX = max 0 (min newX maxX);
                          clampedY = max 0 (min newY maxY);
                          p = \<lparr>px = clampedX, py = clampedY\<rparr>
                      in case find (\<lambda>s. nid s = d) (dataSources g) of
                           Some source \<Rightarrow>
                             (b1, updateSourceNode (nid source) (\<lambda>n. n\<lparr>position := Some p\<rparr>) g)
                         | None \<Rightarrow>
                            (case find (\<lambda>t. nid t = d) (dataTargets g) of
                               Some target \<Rightarrow>
                                 (b1, updateTargetNode (nid target)
                                        (\<lambda>n. n\<lparr>position := Some p\<rparr>) g)
                             | None \<Rightarrow> (b1, g))))))"

definition onMouseUp :: "ViewBuilder \<Rightarrow> ViewBuilder" where
  "onMouseUp b =
     b\<lparr>draggingId := None, connectingSourceId := None, mousePos := None, isPanning := False\<rparr>"

definition onMouseUp_basic :: "Builder \<Rightarrow> Builder" where
  "onMouseUp_basic b = b\<lparr>draggingId := None, connectingSourceId := None, mousePos := None\<rparr>"

text \<open>The stored position of the node that \<open>findNode\<close> returns.\<close>

fun positionOf :: "AnyNode \<Rightarrow> NodePosition option" where
  "positionOf (SourceNode n) = position n"
| "positionOf (TransformNode n) = position n"
| "positionOf (TargetNode n) = position n"

text \<open>
  Where a release is delivered, from the handlers bound in the markup: an input handle
  calls \<open>endWiring\<close> with its node and stops the propagation of the event; from any other
  element (the canvas, a node body, an output handle) the event reaches the canvas, whose
  \<open>onMouseUp\<close> runs; the pointer leaving the canvas runs \<open>onMouseUp\<close> too.
\<close>

datatype ReleaseTarget = InputAnchor string | Elsewhere

fun release ::
  "string \<Rightarrow> ReleaseTarget \<Rightarrow> ViewBuilder \<times> DeRequestState \<Rightarrow> ViewBuilder \<times> DeRequestState" where
  "release uuid (InputAnchor t) st = endWiring uuid t st"
| "release uuid Elsewhere st = (case st of (b, g) \<Rightarrow> (onMouseUp b, g))"

fun release_basic ::
  "string \<Rightarrow> ReleaseTarget \<Rightarrow> Builder \<times> DeRequestState \<Rightarrow> Builder \<times> DeRequestState" where
  "release_basic uuid (InputAnchor t) st = endWiring uuid t st"
| "release_basic uuid Elsewhere st = (case st of (b, g) \<Rightarrow> (onMouseUp_basic b, g))"

text \<open>
  A wire gesture: a press on the output handle of node \<open>a\<close>, any number of moves, and a
  release.
\<close>

definition wireGesture ::
  "Rect option \<Rightarrow> MouseEvent \<Rightarrow> string \<Rightarrow> MouseEvent list \<Rightarrow> string \<Rightarrow> ReleaseTarget \<Rightarrow>
   ViewBuilder \<times> DeRequestState \<Rightarrow> ViewBuilder \<times> DeRequestState" where
  "wireGesture canvas down a moves uuid r st =
     release uuid r
       (fold (onMouseMove canvas) moves (case st of (b, g) \<Rightarrow> (startWiring canvas down a b, g)))"

definition wireGesture_basic ::
  "Rect option \<Rightarrow> MouseEvent \<Rightarrow> string \<Rightarrow> MouseEvent list \<Rightarrow> string \<Rightarrow> ReleaseTarget \<Rightarrow>
   Builder \<times> DeRequestState \<Rightarrow> Builder \<times> DeRequestState" where
  "wireGesture_basic canvas down a moves uuid r st =
     release_basic uuid r
       (fold (onMouseMove_basic canvas) moves
          (case st of (b, g) \<Rightarrow> (startWiring_basic canvas down a b, g)))"

text \<open>
  One invocation of a handler of the builder with viewport, and a sequence of them. Each
  event comes with the bounding rectangle of the canvas at that moment. A pointer event
  that runs the handler of an element and then that of the canvas is two events of the
  sequence.
\<close>

datatype Event =
    Wheel WheelEvent
  | ZoomIn
  | ZoomOut
  | Reset
  | MouseDown MouseEvent
  | MouseMove MouseEvent
  | MouseUp
  | NodeDown MouseEvent string "NodePosition option"
  | OutputDown MouseEvent string
  | InputUp string string

fun step ::
  "Rect option \<Rightarrow> Event \<Rightarrow> ViewBuilder \<times> DeRequestState \<Rightarrow> ViewBuilder \<times> DeRequestState" where
  "step canvas (Wheel e) (b, g) = (handleWheel canvas e b, g)"
| "step canvas ZoomIn (b, g) = (handleZoomIn canvas b, g)"
| "step canvas ZoomOut (b, g) = (handleZoomOut canvas b, g)"
| "step canvas Reset (b, g) = (resetView b, g)"
| "step canvas (MouseDown e) (b, g) = (handleMouseDown e b, g)"
| "step canvas (MouseMove e) (b, g) = onMouseMove canvas e (b, g)"
| "step canvas MouseUp (b, g) = (onMouseUp b, g)"
| "step canvas (NodeDown e i p) (b, g) = (startNodeDrag canvas e i p b, g)"
| "step canvas (OutputDown e i) (b, g) = (startWiring canvas e i b, g)"
| "step canvas (InputUp uuid t) (b, g) = endWiring uuid t (b, g)"

definition run ::
  "(Rect option \<times> Event) list \<Rightarrow> ViewBuilder \<times> DeRequestState \<Rightarrow> ViewBuilder \<times> DeRequestState"
  where
  "run evs st = fold (\<lambda>(canvas, ev). step canvas ev) evs st"

section \<open>Reporting failures of the generation service\<close>

text \<open>
  An error value as \<open>formatError\<close> reads it: its \<open>message\<close> property, absent or a string,
  and the result of its \<open>toString()\<close>. In \<open>a || b\<close> an absent or empty \<open>a\<close> gives \<open>b\<close>.
\<close>

record JsError =
  message :: "string option"
  toString :: string

text \<open>\<open>String.prototype.includes\<close> (here \<open>includes_str\<close>): the argument occurs as a
  contiguous part.\<close>

fun includes_str :: "string \<Rightarrow> string \<Rightarrow> bool" where
  "includes_str [] sub = (sub = [])"
| "includes_str (c # cs) sub = (prefix sub (c # cs) \<or> includes_str cs sub)"

definition errorMessage :: "JsError \<Rightarrow> string" where
  "errorMessage error =
     (case message error of
        None \<Rightarrow> toString error
      | Some m \<Rightarrow> if m \<noteq> [] then m else toString error)"

definition formatError :: "JsError \<Rightarrow> string" where
  "formatError error =
     (let msg = errorMessage error in
      if includes_str msg ''401'' \<or> includes_str msg ''UNAUTHENTICATED''
      then ''Authentication Failed: Invalid API Key.''
      else if includes_str msg ''429'' \<or> includes_str msg ''RESOURCE_EXHAUSTED''
      then ''Rate Limit Exceeded: Please wait a moment.''
      else if includes_str msg ''SAFETY'' \<or> includes_str msg ''blocked''
      then ''Content Error: Request blocked by safety filters.''
      else ''Generation Failed: '' @ msg)"

section \<open>Submitting the form\<close>

text \<open>
  \<open>String.prototype.trim\<close> as ECMAScript defines it: it removes, at both ends, the code
  points of WhiteSpace and of LineTerminator. WhiteSpace is U+0009, U+000B, U+000C, U+FEFF
  and the space separators of Unicode (U+0020, U+00A0, U+1680, U+2000 to U+200A, U+202F,
  U+205F, U+3000); LineTerminator is U+000A, U+000D, U+2028 and U+2029. All of them are
  single code units, and none lies in U+D800 to U+DFFF, the code units that form pairs.
\<close>

definition isWhiteSpace :: "16 word \<Rightarrow> bool" where
  "isWhiteSpace c =
     (c \<in> {0x0009, 0x000B, 0x000C, 0xFEFF, 0x0020, 0x00A0, 0x1680, 0x202F, 0x205F, 0x3000,
            0x000A, 0x000D, 0x2028, 0x2029}
      \<or> (0x2000 \<le> c \<and> c \<le> 0x200A))"

definition trim :: "jsString \<Rightarrow> jsString" where
  "trim s = rev (dropWhile isWhiteSpace (rev (dropWhile isWhiteSpace s)))"

record AppState =
  formState :: DeRequestState
  loading :: bool
  response :: "string option"
  errors :: "string list"
  includeDiagram :: bool

text \<open>
  \<open>handleSubmit\<close> returns the state after all of its updates and the list of calls it
  made to \<open>generateSolution\<close>. The service is a parameter: it answers a call with the
  text (\<open>Inr\<close>) or throws an error (\<open>Inl\<close>).
\<close>

definition handleSubmit ::
  "(DeRequestState \<Rightarrow> bool \<Rightarrow> JsError + string) \<Rightarrow> AppState \<Rightarrow>
   AppState \<times> (DeRequestState \<times> bool) list" where
  "handleSubmit generateSolution a =
     (let newErrors =
            (if trim (techRequirements (formState a)) = []
             then [''Technical Requirements are mandatory.''] else [])
          @ (if length (dataSources (formState a)) = 0
             then [''At least one Data Source is required.''] else [])
          @ (if length (dataTargets (formState a)) = 0
             then [''At least one Data Target is required.''] else [])
      in if length newErrors > 0 then (a\<lparr>errors := newErrors\<rparr>, [])
         else
           (let a1 = a\<lparr>loading := True, errors := [], response := None\<rparr>
            in case generateSolution (formState a) (includeDiagram a) of
                 Inr result \<Rightarrow>
                   (a1\<lparr>response := Some result, loading := False\<rparr>,
                    [(formState a, includeDiagram a)])
               | Inl err \<Rightarrow>
                   (a1\<lparr>errors := [case message err of
                                      None \<Rightarrow> ''Something went wrong''
                                    | Some m \<Rightarrow> if m \<noteq> [] then m
                                               else ''Something went wrong''],
                       loading := False\<rparr>,
                    [(formState a, includeDiagram a)])))"


text \<open>The range of the zoom factor, and concrete data for the examples.\<close>

definition zoom_ok :: "ViewBuilder \<Rightarrow> bool" where
  "zoom_ok b = (1 / 10 \<le> zoom (viewport b) \<and> zoom (viewport b) \<le> 5)"

definition exampleRect :: Rect where
  "exampleRect = \<lparr>rect_left = 0, rect_top = 0, rect_width = 800, rect_height = 600\<rparr>"

definition zoomedInBuilder :: ViewBuilder where
  "zoomedInBuilder = initialBuilder\<lparr>viewport := \<lparr>vx = 0, vy = 0, zoom = 5\<rparr>\<rparr>"

text \<open>
  The lookup of the builder without viewport, as its rendering code writes it:
  \<open>sources.find(s => s.id === id) || targets.find(t => t.id === id)\<close>.
\<close>

definition findNode_basic :: "DeRequestState \<Rightarrow> string \<Rightarrow> AnyNode option" where
  "findNode_basic g i =
     (case find (\<lambda>s. nid s = i) (dataSources g) of
        Some s \<Rightarrow> Some (SourceNode s)
      | None \<Rightarrow> map_option TargetNode (find (\<lambda>t. nid t = i) (dataTargets g)))"

definition draggingBuilder :: ViewBuilder where
  "draggingBuilder = initialBuilder\<lparr>draggingId := Some ''1'', dragOffset := \<lparr>px = 10, py = 10\<rparr>,
     viewport := \<lparr>vx = 0, vy = 0, zoom = 1 / 10\<rparr>\<rparr>"

definition draggingBuilder_basic :: Builder where
  "draggingBuilder_basic = \<lparr>isExpanded = False, draggingId = Some ''1'',
     dragOffset = \<lparr>px = 10, py = 10\<rparr>, hasMoved = False, connectingSourceId = None,
     mousePos = None\<rparr>"

definition initialBuilder_basic :: Builder where
  "initialBuilder_basic = \<lparr>isExpanded = False, draggingId = None,
     dragOffset = \<lparr>px = 0, py = 0\<rparr>, hasMoved = False, connectingSourceId = None,
     mousePos = None\<rparr>"

text \<open>
  Concrete application states: no node and requirements of a space and a tab; the initial
  graph and requirements of a single no-break space (U+00A0); the initial graph and the
  requirements "Daily sync".
\<close>

definition blankApp :: AppState where
  "blankApp = \<lparr>formState = emptyState\<lparr>techRequirements := [0x0020, 0x0009]\<rparr>,
     loading = False, response = None, errors = [], includeDiagram = True\<rparr>"

definition nbspApp :: AppState where
  "nbspApp = \<lparr>formState = initialState\<lparr>techRequirements := [0x00A0]\<rparr>,
     loading = False, response = None, errors = [], includeDiagram = True\<rparr>"

definition readyApp :: AppState where
  "readyApp = \<lparr>formState = initialState\<lparr>techRequirements :=
       [0x44, 0x61, 0x69, 0x6C, 0x79, 0x20, 0x73, 0x79, 0x6E, 0x63]\<rparr>,
     loading = False, response = None, errors = [''old''], includeDiagram = True\<rparr>"

definition panningBuilder :: ViewBuilder where
  "panningBuilder = initialBuilder\<lparr>isPanning := True, lastMouse := \<lparr>px = 10, py = 20\<rparr>\<rparr>"

section \<open>The form view\<close>

text \<open>
  In the form view the application renders \<open>SourceNodeList\<close>, \<open>TransformationNodeList\<close>
  and \<open>TargetNodeList\<close> with the node list of the rendered state and the callback
  \<open>onChange = (nodes) => handleInputChange(field, nodes)\<close>. \<open>handleInputChange\<close> replaces
  one field of the form state; its two arguments, the name of the field and a value of
  that field's type, are one tagged value here.
\<close>

datatype FieldValue =
    TechRequirements jsString
  | ProductRequirements string
  | ExistingTools "string list"
  | DataSources "DataSource list"
  | TransformationNodes "TransformationNode list"
  | DataTargets "DataTarget list"
  | Connections "Connection list"

definition handleInputChange :: "FieldValue \<Rightarrow> DeRequestState \<Rightarrow> DeRequestState" where
  "handleInputChange fv prev =
     (case fv of
        TechRequirements v \<Rightarrow> prev\<lparr>techRequirements := v\<rparr>
      | ProductRequirements v \<Rightarrow> prev\<lparr>productRequirements := v\<rparr>
      | ExistingTools v \<Rightarrow> prev\<lparr>existingTools := v\<rparr>
      | DataSources v \<Rightarrow> prev\<lparr>dataSources := v\<rparr>
      | TransformationNodes v \<Rightarrow> prev\<lparr>transformationNodes := v\<rparr>
      | DataTargets v \<Rightarrow> prev\<lparr>dataTargets := v\<rparr>
      | Connections v \<Rightarrow> prev\<lparr>connections := v\<rparr>)"

text \<open>
  \<open>removeNode\<close> has the same text in the three list components: it hands the filtered
  list to \<open>onChange\<close>. The three definitions after it are \<open>removeNode\<close> of each component
  as the application binds it.
\<close>

definition removeNode :: "'a Node_scheme list \<Rightarrow> string \<Rightarrow> 'a Node_scheme list" where
  "removeNode nodes i = filter (\<lambda>node. nid node \<noteq> i) nodes"

definition removeNode_SourceNodeList ::
  "DeRequestState \<Rightarrow> string \<Rightarrow> DeRequestState \<Rightarrow> DeRequestState" where
  "removeNode_SourceNodeList rendered i prev =
     handleInputChange (DataSources (removeNode (dataSources rendered) i)) prev"

definition removeNode_TransformationNodeList ::
  "DeRequestState \<Rightarrow> string \<Rightarrow> DeRequestState \<Rightarrow> DeRequestState" where
  "removeNode_TransformationNodeList rendered i prev =
     handleInputChange (TransformationNodes (removeNode (transformationNodes rendered) i)) prev"

definition removeNode_TargetNodeList ::
  "DeRequestState \<Rightarrow> string \<Rightarrow> DeRequestState \<Rightarrow> DeRequestState" where
  "removeNode_TargetNodeList rendered i prev =
     handleInputChange (DataTargets (removeNode (dataTargets rendered) i)) prev"

text \<open>
  Two sequences of handler invocations of the builder with viewport, pressed at (100, 100)
  on the body of node 1, which lies at (50, 50). In the first, a press of the middle
  button runs \<open>startNodeDrag\<close>, which returns before it stops the propagation, and then
  \<open>handleMouseDown\<close> of the canvas; a press of the left button follows. In the second, a
  press of the left button on the body is followed by a press of the middle button on the
  output handle.
\<close>

definition panThenDrag :: "(Rect option \<times> Event) list" where
  "panThenDrag =
     [(Some exampleRect,
       NodeDown \<lparr>clientX = 100, clientY = 100, button = 1\<rparr> ''1'' (Some \<lparr>px = 50, py = 50\<rparr>)),
      (Some exampleRect, MouseDown \<lparr>clientX = 100, clientY = 100, button = 1\<rparr>),
      (Some exampleRect,
       NodeDown \<lparr>clientX = 100, clientY = 100, button = 0\<rparr> ''1'' (Some \<lparr>px = 50, py = 50\<rparr>))]"

definition dragThenWire :: "(Rect option \<times> Event) list" where
  "dragThenWire =
     [(Some exampleRect,
       NodeDown \<lparr>clientX = 100, clientY = 100, button = 0\<rparr> ''1'' (Some \<lparr>px = 50, py = 50\<rparr>)),
      (Some exampleRect, OutputDown \<lparr>clientX = 250, clientY = 100, button = 1\<rparr> ''1'')]"

section \<open>Properties of the graph operations\<close>

lemma find_filter_other:
  "j \<noteq> i \<Longrightarrow>
   find (\<lambda>n. nid n = j) (filter (\<lambda>node. nid node \<noteq> i) xs) = find (\<lambda>n. nid n = j) xs"
  by (induction xs) auto

lemma find_filter_same: "find (\<lambda>n. nid n = i) (filter (\<lambda>node. nid node \<noteq> i) xs) = None"
  by (induction xs) auto

lemma findNode_removeSourceNode: "j \<noteq> i \<Longrightarrow> findNode (removeSourceNode i g) j = findNode g j"
  by (simp add: findNode_def removeSourceNode_def find_filter_other cong: option.case_cong)

lemma findNode_removeTransformationNode:
  "j \<noteq> i \<Longrightarrow> findNode (removeTransformationNode i g) j = findNode g j"
  by (simp add: findNode_def removeTransformationNode_def find_filter_other
      cong: option.case_cong)

lemma findNode_removeTargetNode: "j \<noteq> i \<Longrightarrow> findNode (removeTargetNode i g) j = findNode g j"
  by (simp add: findNode_def removeTargetNode_def find_filter_other cong: option.case_cong)

lemma connections_removeSourceNode:
  "connections (removeSourceNode i g) =
     filter (\<lambda>c. sourceId c \<noteq> i \<and> targetId c \<noteq> i) (connections g)"
  by (simp add: removeSourceNode_def)

lemma connections_removeTransformationNode:
  "connections (removeTransformationNode i g) =
     filter (\<lambda>c. sourceId c \<noteq> i \<and> targetId c \<noteq> i) (connections g)"
  by (simp add: removeTransformationNode_def)

lemma connections_removeTargetNode:
  "connections (removeTargetNode i g) =
     filter (\<lambda>c. sourceId c \<noteq> i \<and> targetId c \<noteq> i) (connections g)"
  by (simp add: removeTargetNode_def)

lemma cascade_generic:
  assumes conns:
      "connections g' = filter (\<lambda>c. sourceId c \<noteq> i \<and> targetId c \<noteq> i) (connections g)"
    and keep: "\<And>j. j \<noteq> i \<Longrightarrow> findNode g' j = findNode g j"
  shows "(\<forall>c \<in> set (connections g'). sourceId c \<noteq> i \<and> targetId c \<noteq> i)
     \<and> ((\<forall>c \<in> set (connections g). resolves g c) \<longrightarrow>
          (\<forall>c \<in> set (connections g'). resolves g' c))"
  by (simp add: conns resolves_def keep)

lemma addConnection_current:
  "addConnection g u a b g =
     (if a = b \<or> (\<exists>c \<in> set (connections g). sourceId c = a \<and> targetId c = b) then g
      else g\<lparr>connections := connections g @ [\<lparr>cid = u, sourceId = a, targetId = b\<rparr>]\<rparr>)"
  by (simp add: addConnection_def list_ex_iff)

lemma addConnection_rejected:
  "a = b \<or> (\<exists>c \<in> set (connections g). sourceId c = a \<and> targetId c = b) \<Longrightarrow>
   addConnection g u a b g = g"
  by (simp add: addConnection_current)

text \<open>
  C1 (as stated, refuted). The claim has \<open>addConnection\<close> do nothing when an identifier
  is not that of a node of the graph. In the state without any node, \<open>''a''\<close> and \<open>''b''\<close>
  are not found, and \<open>addConnection\<close> appends the connection from \<open>''a''\<close> to \<open>''b''\<close>.
\<close>

theorem addConnection_unknown_ids_counterexample:
  "findNode emptyState ''a'' = None \<and> findNode emptyState ''b'' = None \<and>
   connections (addConnection emptyState ''u'' ''a'' ''b'' emptyState) =
     connections emptyState @ [\<lparr>cid = ''u'', sourceId = ''a'', targetId = ''b''\<rparr>]"
  by (simp add: findNode_def emptyState_def addConnection_def)

text \<open>
  C1 (amended). On the state it was rendered with, \<open>addConnection\<close> leaves the state as it
  is when the two identifiers are equal or a connection with the same ordered pair
  exists; otherwise it appends exactly one connection with the generated identifier and
  these endpoints, and changes nothing else, whether or not the identifiers are those of
  nodes. A second call with the same arguments on the resulting state changes nothing, so
  that two calls from a state without the pair leave exactly one connection of the pair.
\<close>

theorem addConnection_guards:
  "(let g1 = addConnection g u1 a b g in
     g1 = (if a = b \<or> (\<exists>c \<in> set (connections g). sourceId c = a \<and> targetId c = b) then g
           else g\<lparr>connections := connections g @ [\<lparr>cid = u1, sourceId = a, targetId = b\<rparr>]\<rparr>)
     \<and> addConnection g1 u2 a b g1 = g1
     \<and> (a \<noteq> b \<and> \<not> (\<exists>c \<in> set (connections g). sourceId c = a \<and> targetId c = b) \<longrightarrow>
          length (filter (\<lambda>c. sourceId c = a \<and> targetId c = b)
             (connections (addConnection g1 u2 a b g1))) = 1))"
proof (cases "a = b \<or> (\<exists>c \<in> set (connections g). sourceId c = a \<and> targetId c = b)")
  case True
  then have "addConnection g u1 a b g = g" and "addConnection g u2 a b g = g"
    by (rule addConnection_rejected)+
  with True show ?thesis
    by (simp add: Let_def)
next
  case False
  define g1 where
    "g1 = g\<lparr>connections := connections g @ [\<lparr>cid = u1, sourceId = a, targetId = b\<rparr>]\<rparr>"
  from False have first: "addConnection g u1 a b g = g1"
    by (simp add: addConnection_current g1_def)
  have "\<exists>c \<in> set (connections g1). sourceId c = a \<and> targetId c = b"
    by (simp add: g1_def)
  then have second: "addConnection g1 u2 a b g1 = g1"
    by (simp add: addConnection_rejected)
  from False have "filter (\<lambda>c. sourceId c = a \<and> targetId c = b) (connections g) = []"
    by (simp add: filter_empty_conv)
  then have "length (filter (\<lambda>c. sourceId c = a \<and> targetId c = b) (connections g1)) = 1"
    by (simp add: g1_def)
  with False first second show ?thesis
    by (simp add: Let_def g1_def)
qed

theorem addConnection_guards_witness:
  "(let g1 = addConnection emptyState ''u1'' ''a'' ''b'' emptyState in
     g1 = emptyState\<lparr>connections := [\<lparr>cid = ''u1'', sourceId = ''a'', targetId = ''b''\<rparr>]\<rparr>
     \<and> addConnection g1 ''u2'' ''a'' ''b'' g1 = g1
     \<and> length (filter (\<lambda>c. sourceId c = ''a'' \<and> targetId c = ''b'')
             (connections (addConnection g1 ''u2'' ''a'' ''b'' g1))) = 1)"
proof -
  have "connections emptyState = []"
    by (simp add: emptyState_def)
  then show ?thesis
    using addConnection_guards [of emptyState "''u1''" "''a''" "''b''" "''u2''"]
    by (clarsimp simp: Let_def)
qed

text \<open>
  The guards read the rendered state: a second call made before the next rendering still
  sees the list without the pair, and appends again.
\<close>

lemma addConnection_same_render:
  "connections (addConnection emptyState ''u2'' ''a'' ''b''
      (addConnection emptyState ''u1'' ''a'' ''b'' emptyState)) =
     [\<lparr>cid = ''u1'', sourceId = ''a'', targetId = ''b''\<rparr>,
      \<lparr>cid = ''u2'', sourceId = ''a'', targetId = ''b''\<rparr>]"
  by (simp add: addConnection_def emptyState_def)

text \<open>
  The removal operations that the visual builder calls do cascade. After each of the three
  no remaining connection has the removed identifier as its source or as its target, and
  the collection the operation filters holds no node with that identifier; when the
  identifier names no node of the two other collections, \<open>findNode\<close> does not find it any
  more. If every connection resolved before the removal, every remaining connection
  resolves afterwards.
\<close>

lemma removeNode_cascade:
  "(\<forall>c \<in> set (connections (removeSourceNode i g)). sourceId c \<noteq> i \<and> targetId c \<noteq> i)
   \<and> (\<forall>c \<in> set (connections (removeTransformationNode i g)). sourceId c \<noteq> i \<and> targetId c \<noteq> i)
   \<and> (\<forall>c \<in> set (connections (removeTargetNode i g)). sourceId c \<noteq> i \<and> targetId c \<noteq> i)
   \<and> find (\<lambda>n. nid n = i) (dataSources (removeSourceNode i g)) = None
   \<and> find (\<lambda>n. nid n = i) (transformationNodes (removeTransformationNode i g)) = None
   \<and> find (\<lambda>n. nid n = i) (dataTargets (removeTargetNode i g)) = None
   \<and> (find (\<lambda>n. nid n = i) (transformationNodes g) = None
        \<and> find (\<lambda>n. nid n = i) (dataTargets g) = None \<longrightarrow>
        findNode (removeSourceNode i g) i = None)
   \<and> (find (\<lambda>n. nid n = i) (dataSources g) = None
        \<and> find (\<lambda>n. nid n = i) (dataTargets g) = None \<longrightarrow>
        findNode (removeTransformationNode i g) i = None)
   \<and> (find (\<lambda>n. nid n = i) (dataSources g) = None
        \<and> find (\<lambda>n. nid n = i) (transformationNodes g) = None \<longrightarrow>
        findNode (removeTargetNode i g) i = None)
   \<and> ((\<forall>c \<in> set (connections g). resolves g c) \<longrightarrow>
        (\<forall>c \<in> set (connections (removeSourceNode i g)). resolves (removeSourceNode i g) c)
      \<and> (\<forall>c \<in> set (connections (removeTransformationNode i g)).
            resolves (removeTransformationNode i g) c)
      \<and> (\<forall>c \<in> set (connections (removeTargetNode i g)). resolves (removeTargetNode i g) c))"
proof -
  note s = cascade_generic [OF connections_removeSourceNode findNode_removeSourceNode, of i g]
  note t = cascade_generic [OF connections_removeTransformationNode
      findNode_removeTransformationNode, of i g]
  note u = cascade_generic [OF connections_removeTargetNode findNode_removeTargetNode, of i g]
  have gone: "find (\<lambda>n. nid n = i) (dataSources (removeSourceNode i g)) = None"
    "find (\<lambda>n. nid n = i) (transformationNodes (removeTransformationNode i g)) = None"
    "find (\<lambda>n. nid n = i) (dataTargets (removeTargetNode i g)) = None"
    by (simp_all add: removeSourceNode_def removeTransformationNode_def removeTargetNode_def
        find_filter_same)
  have nowhere:
    "find (\<lambda>n. nid n = i) (transformationNodes g) = None
       \<and> find (\<lambda>n. nid n = i) (dataTargets g) = None \<longrightarrow>
     findNode (removeSourceNode i g) i = None"
    "find (\<lambda>n. nid n = i) (dataSources g) = None
       \<and> find (\<lambda>n. nid n = i) (dataTargets g) = None \<longrightarrow>
     findNode (removeTransformationNode i g) i = None"
    "find (\<lambda>n. nid n = i) (dataSources g) = None
       \<and> find (\<lambda>n. nid n = i) (transformationNodes g) = None \<longrightarrow>
     findNode (removeTargetNode i g) i = None"
    by (simp_all add: findNode_def removeSourceNode_def removeTransformationNode_def
        removeTargetNode_def find_filter_same)
  from s t u gone nowhere show ?thesis
    by blast
qed

lemma removeNode_cascade_example:
  "connections (removeSourceNode ''1'' initialState) =
       [\<lparr>cid = ''c2'', sourceId = ''t1'', targetId = ''10''\<rparr>]
   \<and> resolves (removeSourceNode ''1'' initialState)
         \<lparr>cid = ''c2'', sourceId = ''t1'', targetId = ''10''\<rparr>
   \<and> findNode (removeSourceNode ''1'' initialState) ''1'' = None"
proof -
  have before: "\<forall>c \<in> set (connections initialState). resolves initialState c"
    by (simp add: initialState_def resolves_def findNode_def)
  have after: "connections (removeSourceNode ''1'' initialState) =
      [\<lparr>cid = ''c2'', sourceId = ''t1'', targetId = ''10''\<rparr>]"
    by (simp add: initialState_def removeSourceNode_def)
  have others: "find (\<lambda>n. nid n = ''1'') (transformationNodes initialState) = None
      \<and> find (\<lambda>n. nid n = ''1'') (dataTargets initialState) = None"
    by (simp add: initialState_def)
  from before others removeNode_cascade [of "''1''" initialState]
  have "\<forall>c \<in> set (connections (removeSourceNode ''1'' initialState)).
          resolves (removeSourceNode ''1'' initialState) c"
    and "findNode (removeSourceNode ''1'' initialState) ''1'' = None"
    by blast+
  with after show ?thesis
    by simp
qed

text \<open>
  The removal of the form view does not cascade: it replaces the node list and leaves the
  connections as they are.
\<close>

lemma connections_removeNode_lists:
  "connections (removeNode_SourceNodeList g i g) = connections g"
  "connections (removeNode_TransformationNodeList g i g) = connections g"
  "connections (removeNode_TargetNodeList g i g) = connections g"
  by (simp_all add: removeNode_SourceNodeList_def removeNode_TransformationNodeList_def
      removeNode_TargetNodeList_def handleInputChange_def)

text \<open>
  C2 (fails on the code). The claim has no connection reference a node after its removal.
  In the initial state of the application, \<open>removeNode\<close> of \<open>SourceNodeList\<close> for node 1
  removes the node, and both connections remain: the first still has node 1 as its
  source, and it does not resolve any more.
\<close>

theorem removeNode_list_orphan:
  "findNode (removeNode_SourceNodeList initialState ''1'' initialState) ''1'' = None
   \<and> connections (removeNode_SourceNodeList initialState ''1'' initialState) =
       [\<lparr>cid = ''c1'', sourceId = ''1'', targetId = ''t1''\<rparr>,
        \<lparr>cid = ''c2'', sourceId = ''t1'', targetId = ''10''\<rparr>]
   \<and> \<not> resolves (removeNode_SourceNodeList initialState ''1'' initialState)
         \<lparr>cid = ''c1'', sourceId = ''1'', targetId = ''t1''\<rparr>"
  by (simp add: removeNode_SourceNodeList_def handleInputChange_def removeNode_def
      initialState_def findNode_def resolves_def)

section \<open>Properties of the viewport\<close>

text \<open>
  C3. With a zoom factor other than zero, the wheel handler leaves the world point under
  the pointer where it is: \<open>screenToWorld\<close> of the pointer position is the same before
  and after the handler, in exact arithmetic.
\<close>

theorem handleWheel_fixes_anchor:
  "zoom (viewport b) \<noteq> 0 \<Longrightarrow>
   screenToWorld canvas (viewport (handleWheel canvas e b)) (clientX e) (clientY e) =
   screenToWorld canvas (viewport b) (clientX e) (clientY e)"
proof (cases canvas)
  case None
  then show ?thesis by (simp add: handleWheel_def)
next
  case (Some rect)
  assume z: "zoom (viewport b) \<noteq> 0"
  define nz where "nz = max (1 / 10) (min 5 (zoom (viewport b) * (1 + deltaY e * - (1 / 1000))))"
  have "1 / 10 \<le> nz" by (simp add: nz_def)
  then have nz: "nz \<noteq> 0" by simp
  have "\<And>m w. (m - (m - w * nz)) / nz = w" using nz by simp
  then show ?thesis
    using Some by (simp add: handleWheel_def screenToWorld_def Let_def nz_def[symmetric])
qed

theorem handleWheel_fixes_anchor_witness:
  "screenToWorld (Some exampleRect)
     (viewport (handleWheel (Some exampleRect)
        \<lparr>clientX = 100, clientY = 50, button = 0, deltaY = - 100\<rparr> initialBuilder)) 100 50 =
     \<lparr>px = 100, py = 50\<rparr>
   \<and> zoom (viewport (handleWheel (Some exampleRect)
        \<lparr>clientX = 100, clientY = 50, button = 0, deltaY = - 100\<rparr> initialBuilder)) = 11 / 10"
proof -
  have z: "zoom (viewport initialBuilder) \<noteq> 0"
    by (simp add: initialBuilder_def)
  have "screenToWorld (Some exampleRect) (viewport initialBuilder) 100 50 = \<lparr>px = 100, py = 50\<rparr>"
    by (simp add: screenToWorld_def initialBuilder_def exampleRect_def)
  moreover have "zoom (viewport (handleWheel (Some exampleRect)
        \<lparr>clientX = 100, clientY = 50, button = 0, deltaY = - 100\<rparr> initialBuilder)) = 11 / 10"
    by (simp add: handleWheel_def initialBuilder_def exampleRect_def Let_def)
  ultimately show ?thesis
    using handleWheel_fixes_anchor [OF z, of "Some exampleRect"
        "\<lparr>clientX = 100, clientY = 50, button = 0, deltaY = - 100\<rparr>"]
    by simp
qed

lemma zoom_viewport_handleWheel:
  "1 / 10 \<le> zoom (viewport (handleWheel (Some rect) e b)) \<and>
   zoom (viewport (handleWheel (Some rect) e b)) \<le> 5"
  by (simp add: handleWheel_def Let_def)

lemma zoom_ok_handleWheel: "zoom_ok b \<Longrightarrow> zoom_ok (handleWheel canvas e b)"
  by (cases canvas) (simp_all add: zoom_ok_def handleWheel_def Let_def)

lemma zoom_ok_handleZoomIn: "zoom_ok b \<Longrightarrow> zoom_ok (handleZoomIn canvas b)"
  by (cases canvas) (simp_all add: zoom_ok_def handleZoomIn_def Let_def min_def)

lemma zoom_ok_handleZoomOut: "zoom_ok b \<Longrightarrow> zoom_ok (handleZoomOut canvas b)"
  by (cases canvas) (simp_all add: zoom_ok_def handleZoomOut_def Let_def max_def)

lemma zoom_ok_resetView: "zoom_ok (resetView b)"
  by (simp add: zoom_ok_def resetView_def)

lemma zoom_onMouseMove:
  "zoom (viewport (fst (onMouseMove canvas e (b, g)))) = zoom (viewport b)"
  by (simp add: onMouseMove_def Let_def split: option.splits)

lemma zoom_endWiring: "viewport (fst (endWiring uuid t (b, g))) = viewport b"
  by (simp add: endWiring_def)

lemma zoom_ok_step: "zoom_ok b \<Longrightarrow> zoom_ok (fst (step canvas ev (b, g)))"
proof (cases ev)
  case (MouseMove e)
  assume "zoom_ok b"
  then show ?thesis
    using zoom_onMouseMove [of canvas e b g] by (simp add: MouseMove zoom_ok_def)
next
  case (InputUp u t)
  assume "zoom_ok b"
  then show ?thesis
    using zoom_endWiring [of u t b g] by (simp add: InputUp zoom_ok_def)
qed (simp_all add: zoom_ok_handleWheel zoom_ok_handleZoomIn zoom_ok_handleZoomOut zoom_ok_resetView,
     simp_all add: zoom_ok_def handleMouseDown_def onMouseUp_def startNodeDrag_def startWiring_def Let_def split: option.splits)

lemma zoom_ok_run: "zoom_ok (fst st) \<Longrightarrow> zoom_ok (fst (run evs st))"
proof (induction evs arbitrary: st)
  case Nil
  then show ?case by (simp add: run_def)
next
  case (Cons ce evs)
  obtain canvas ev where ce: "ce = (canvas, ev)" by (cases ce)
  obtain b g where st: "st = (b, g)" by (cases st)
  from Cons.prems have "zoom_ok (fst (step canvas ev (b, g)))"
    by (simp add: st zoom_ok_step)
  then have "zoom_ok (fst (run evs (step canvas ev (b, g))))"
    by (rule Cons.IH)
  then show ?case by (simp add: run_def ce st)
qed

text \<open>
  C4. From the initial state of the builder, after any sequence of handler invocations
  (wheel, zoom in, zoom out, reset, press, move, release, and the start and end of a node
  drag or of a wire), the zoom factor lies between 0.1 and 5.
\<close>

theorem zoom_stays_in_range:
  "1 / 10 \<le> zoom (viewport (fst (run evs (initialBuilder, g)))) \<and>
   zoom (viewport (fst (run evs (initialBuilder, g)))) \<le> 5"
proof -
  have "zoom_ok (fst (initialBuilder, g))"
    by (simp add: zoom_ok_def initialBuilder_def)
  then have "zoom_ok (fst (run evs (initialBuilder, g)))"
    by (rule zoom_ok_run)
  then show ?thesis by (simp add: zoom_ok_def)
qed

theorem zoom_stays_in_range_witness:
  "zoom (viewport (fst (run
      [(Some exampleRect, Wheel \<lparr>clientX = 100, clientY = 50, button = 0, deltaY = - 10000\<rparr>),
       (Some exampleRect, ZoomIn)] (initialBuilder, emptyState)))) = 5
   \<and> 1 / 10 \<le> zoom (viewport (fst (run
      [(Some exampleRect, Wheel \<lparr>clientX = 100, clientY = 50, button = 0, deltaY = - 10000\<rparr>),
       (Some exampleRect, ZoomIn)] (initialBuilder, emptyState))))
   \<and> zoom (viewport (fst (run
      [(Some exampleRect, Wheel \<lparr>clientX = 100, clientY = 50, button = 0, deltaY = - 10000\<rparr>),
       (Some exampleRect, ZoomIn)] (initialBuilder, emptyState)))) \<le> 5"
proof -
  have "zoom (viewport (fst (run
      [(Some exampleRect, Wheel \<lparr>clientX = 100, clientY = 50, button = 0, deltaY = - 10000\<rparr>),
       (Some exampleRect, ZoomIn)] (initialBuilder, emptyState)))) = 5"
    by (simp add: run_def handleWheel_def handleZoomIn_def initialBuilder_def exampleRect_def
        Let_def)
  then show ?thesis
    using zoom_stays_in_range [of "[(Some exampleRect,
        Wheel \<lparr>clientX = 100, clientY = 50, button = 0, deltaY = - 10000\<rparr>),
       (Some exampleRect, ZoomIn)]" emptyState]
    by simp
qed

lemma handleZoomIn_frame:
  "handleZoomIn canvas b = b\<lparr>viewport := viewport (handleZoomIn canvas b)\<rparr>"
  by (cases canvas) (simp_all add: handleZoomIn_def Let_def)

lemma handleZoomOut_frame:
  "handleZoomOut canvas b = b\<lparr>viewport := viewport (handleZoomOut canvas b)\<rparr>"
  by (cases canvas) (simp_all add: handleZoomOut_def Let_def)

text \<open>
  C5 (as stated, refuted). At zoom 5 the zoom-in button leaves the zoom at 5, its upper
  bound, and the zoom-out button then divides by 1.2: the zoom is 25/6 and the offset has
  moved.
\<close>

theorem zoom_roundtrip_counterexample:
  "1 / 10 \<le> zoom (viewport zoomedInBuilder) \<and> zoom (viewport zoomedInBuilder) \<le> 5
   \<and> viewport zoomedInBuilder = \<lparr>vx = 0, vy = 0, zoom = 5\<rparr>
   \<and> viewport (handleZoomOut (Some exampleRect) (handleZoomIn (Some exampleRect) zoomedInBuilder)) =
       \<lparr>vx = 200 / 3, vy = 50, zoom = 25 / 6\<rparr>"
  by (simp add: zoomedInBuilder_def initialBuilder_def exampleRect_def handleZoomIn_def
      handleZoomOut_def Let_def)

text \<open>
  C5 (amended). For a zoom factor between 0.1 and 25/6, so that the zoom-in step is not
  cut off at 5, the zoom-in button followed by the zoom-out button on the same canvas
  restores the state: the zoom and both offsets are what they were, in exact arithmetic.
\<close>

theorem zoom_roundtrip:
  "1 / 10 \<le> zoom (viewport b) \<Longrightarrow> zoom (viewport b) \<le> 25 / 6 \<Longrightarrow>
   handleZoomOut canvas (handleZoomIn canvas b) = b"
proof (cases canvas)
  case None
  then show ?thesis by (simp add: handleZoomIn_def handleZoomOut_def)
next
  case (Some rect)
  assume lo: "1 / 10 \<le> zoom (viewport b)" and hi: "zoom (viewport b) \<le> 25 / 6"
  obtain x y z where v: "viewport b = \<lparr>vx = x, vy = y, zoom = z\<rparr>"
    by (cases "viewport b") simp
  from lo hi have z: "1 / 10 \<le> z" "z \<le> 25 / 6" "z \<noteq> 0"
    by (simp_all add: v)
  define nz where "nz = min 5 (z * (12 / 10))"
  from z have nz_eq: "nz = z * (12 / 10)"
    by (simp add: nz_def)
  from z have nz0: "nz \<noteq> 0"
    by (simp add: nz_eq)
  from z have zback: "max (1 / 10) (nz / (12 / 10)) = z"
    by (simp add: nz_eq)
  have key: "c - (c - (c - (c - u) / z * nz)) / nz * z = u" for c u
    using z(3) nz0 by (simp add: field_simps)
  have vin: "viewport (handleZoomIn (Some rect) b) =
      \<lparr>vx = rect_width rect / 2 - (rect_width rect / 2 - x) / z * nz,
       vy = rect_height rect / 2 - (rect_height rect / 2 - y) / z * nz,
       zoom = nz\<rparr>"
    by (simp add: handleZoomIn_def Let_def v nz_def)
  have "viewport (handleZoomOut canvas (handleZoomIn canvas b)) =
      \<lparr>vx = x, vy = y, zoom = z\<rparr>"
    by (simp only: handleZoomOut_def Let_def Some option.case ViewBuilder.simps vin
        Viewport.simps zback key) simp
  then have same: "viewport (handleZoomOut canvas (handleZoomIn canvas b)) = viewport b"
    by (simp only: v)
  have "handleZoomOut canvas (handleZoomIn canvas b) =
      (handleZoomIn canvas b)\<lparr>viewport := viewport b\<rparr>"
    using handleZoomOut_frame [of canvas "handleZoomIn canvas b"] by (simp only: same)
  also have "\<dots> = (b\<lparr>viewport := viewport (handleZoomIn canvas b)\<rparr>)\<lparr>viewport := viewport b\<rparr>"
    using handleZoomIn_frame [of canvas b] by simp
  also have "\<dots> = b"
    by simp
  finally show ?thesis .
qed

theorem zoom_roundtrip_witness:
  "zoom (viewport (handleZoomIn (Some exampleRect) initialBuilder)) = 6 / 5
   \<and> handleZoomOut (Some exampleRect) (handleZoomIn (Some exampleRect) initialBuilder) =
       initialBuilder"
proof -
  have lo: "1 / 10 \<le> zoom (viewport initialBuilder)"
    and hi: "zoom (viewport initialBuilder) \<le> 25 / 6"
    by (simp_all add: initialBuilder_def)
  have "zoom (viewport (handleZoomIn (Some exampleRect) initialBuilder)) = 6 / 5"
    by (simp add: handleZoomIn_def initialBuilder_def exampleRect_def Let_def)
  with zoom_roundtrip [OF lo hi, of "Some exampleRect"] show ?thesis
    by simp
qed

section \<open>Dragging a node\<close>

lemma find_update_position:
  "find (\<lambda>n. nid n = d) xs = Some n \<Longrightarrow>
   find (\<lambda>n. nid n = d) (map (\<lambda>node. if nid node = d then node\<lparr>position := q\<rparr> else node) xs) =
     Some (n\<lparr>position := q\<rparr>)"
  by (induction xs) (auto split: if_splits)

lemma find_nid: "find (\<lambda>n. nid n = d) xs = Some n \<Longrightarrow> nid n = d"
  by (induction xs) (auto split: if_splits)

lemma findNode_cases:
  assumes "findNode g d \<noteq> None"
  obtains (source) n where "find (\<lambda>s. nid s = d) (dataSources g) = Some n"
  | (transform) n where "find (\<lambda>s. nid s = d) (dataSources g) = None"
      "find (\<lambda>t. nid t = d) (transformationNodes g) = Some n"
  | (target) n where "find (\<lambda>s. nid s = d) (dataSources g) = None"
      "find (\<lambda>t. nid t = d) (transformationNodes g) = None"
      "find (\<lambda>t. nid t = d) (dataTargets g) = Some n"
  using assms by (auto simp: findNode_def split: option.splits)

lemma onMouseMove_drag:
  assumes "\<not> isPanning b" "\<not> truthy (connectingSourceId b)" "draggingId b = Some d" "d \<noteq> []"
    and found: "findNode g d \<noteq> None"
  shows "map_option positionOf (findNode (snd (onMouseMove (Some rect) e (b, g))) d) =
     Some (Some \<lparr>px = max (- 500)
                   (px (screenToWorld (Some rect) (viewport b) (clientX e) (clientY e))
                    - px (dragOffset b)),
                 py = max (- 500)
                   (py (screenToWorld (Some rect) (viewport b) (clientX e) (clientY e))
                    - py (dragOffset b))\<rparr>)"
  using found
proof (cases rule: findNode_cases)
  case (source n)
  show ?thesis
    using assms(1-4) source
    by (simp add: onMouseMove_def Let_def findNode_def updateSourceNode_def
        find_nid [OF source] find_update_position [OF source])
next
  case (transform n)
  show ?thesis
    using assms(1-4) transform
    by (simp add: onMouseMove_def Let_def findNode_def updateTransformationNode_def
        find_nid [OF transform(2)] find_update_position [OF transform(2)])
next
  case (target n)
  show ?thesis
    using assms(1-4) target
    by (simp add: onMouseMove_def Let_def findNode_def updateTargetNode_def
        find_nid [OF target(3)] find_update_position [OF target(3)])
qed

lemma findNode_basic_cases:
  assumes "findNode_basic g d \<noteq> None"
  obtains (source) n where "find (\<lambda>s. nid s = d) (dataSources g) = Some n"
  | (target) n where "find (\<lambda>s. nid s = d) (dataSources g) = None"
      "find (\<lambda>t. nid t = d) (dataTargets g) = Some n"
  using assms by (auto simp: findNode_basic_def split: option.splits)

lemma onMouseMove_basic_drag:
  assumes "\<not> truthy (connectingSourceId b)" "draggingId b = Some d" "d \<noteq> []"
    and found: "findNode_basic g d \<noteq> None"
  shows "map_option positionOf (findNode_basic (snd (onMouseMove_basic (Some rect) e (b, g))) d) =
     Some (Some \<lparr>px = max 0 (min (clientX e - px (dragOffset b)) (rect_width rect - 200)),
                 py = max 0 (min (clientY e - py (dragOffset b)) (rect_height rect - 80))\<rparr>)"
  using found
proof (cases rule: findNode_basic_cases)
  case (source n)
  show ?thesis
    using assms(1-3) source
    by (simp add: onMouseMove_basic_def Let_def findNode_basic_def updateSourceNode_def
        find_nid [OF source] find_update_position [OF source])
next
  case (target n)
  show ?thesis
    using assms(1-3) target
    by (simp add: onMouseMove_basic_def Let_def findNode_basic_def updateTargetNode_def
        find_nid [OF target(2)] find_update_position [OF target(2)])
qed


text \<open>
  C6 (as stated, refuted). In the builder of \<open>src/components/VisualBuilder.tsx\<close> the
  position has an upper bound: on a canvas of 800 by 600, with the grab offset (10, 10)
  and the pointer at (790, 590), the node is stored at (600, 520), not at (780, 580). In
  the builder with viewport a node can be the dragged one while a pan or a wire is in
  progress: after each of the sequences \<open>panThenDrag\<close> and \<open>dragThenWire\<close>,
  \<open>draggingId\<close> is node 1 with the grab offset (50, 50), and a move to (300, 200) leaves
  the node at (50, 50), not at (250, 150).
\<close>

theorem drag_position_counterexample:
  "clientX \<lparr>clientX = 790, clientY = 590, button = 0\<rparr> - px (dragOffset draggingBuilder_basic) = 780
   \<and> clientY \<lparr>clientX = 790, clientY = 590, button = 0\<rparr> - py (dragOffset draggingBuilder_basic) = 580
   \<and> map_option positionOf
        (findNode_basic
          (snd (onMouseMove_basic (Some exampleRect) \<lparr>clientX = 790, clientY = 590, button = 0\<rparr>
                 (draggingBuilder_basic, initialState))) ''1'') =
       Some (Some \<lparr>px = 600, py = 520\<rparr>)
   \<and> draggingId (fst (run panThenDrag (initialBuilder, initialState))) = Some ''1''
   \<and> isPanning (fst (run panThenDrag (initialBuilder, initialState)))
   \<and> dragOffset (fst (run panThenDrag (initialBuilder, initialState))) = \<lparr>px = 50, py = 50\<rparr>
   \<and> map_option positionOf
        (findNode
          (snd (onMouseMove (Some exampleRect) \<lparr>clientX = 300, clientY = 200, button = 0\<rparr>
                 (run panThenDrag (initialBuilder, initialState)))) ''1'') =
       Some (Some \<lparr>px = 50, py = 50\<rparr>)
   \<and> draggingId (fst (run dragThenWire (initialBuilder, initialState))) = Some ''1''
   \<and> connectingSourceId (fst (run dragThenWire (initialBuilder, initialState))) = Some ''1''
   \<and> dragOffset (fst (run dragThenWire (initialBuilder, initialState))) = \<lparr>px = 50, py = 50\<rparr>
   \<and> map_option positionOf
        (findNode
          (snd (onMouseMove (Some exampleRect) \<lparr>clientX = 300, clientY = 200, button = 0\<rparr>
                 (run dragThenWire (initialBuilder, initialState)))) ''1'') =
       Some (Some \<lparr>px = 50, py = 50\<rparr>)"
proof -
  have basic: "map_option positionOf
        (findNode_basic
          (snd (onMouseMove_basic (Some exampleRect) \<lparr>clientX = 790, clientY = 590, button = 0\<rparr>
                 (draggingBuilder_basic, initialState))) ''1'') =
       Some (Some \<lparr>px = 600, py = 520\<rparr>)"
    by (simp add: draggingBuilder_basic_def initialState_def exampleRect_def
        onMouseMove_basic_def findNode_basic_def updateSourceNode_def Let_def)
  have pan: "run panThenDrag (initialBuilder, initialState) =
      (initialBuilder\<lparr>draggingId := Some ''1'', dragOffset := \<lparr>px = 50, py = 50\<rparr>,
         isPanning := True, lastMouse := \<lparr>px = 100, py = 100\<rparr>\<rparr>, initialState)"
    by (simp add: run_def panThenDrag_def startNodeDrag_def handleMouseDown_def
        screenToWorld_def initialBuilder_def exampleRect_def Let_def)
  have wire: "run dragThenWire (initialBuilder, initialState) =
      (initialBuilder\<lparr>draggingId := Some ''1'', dragOffset := \<lparr>px = 50, py = 50\<rparr>,
         connectingSourceId := Some ''1'', mousePos := Some \<lparr>px = 250, py = 100\<rparr>\<rparr>,
       initialState)"
    by (simp add: run_def dragThenWire_def startNodeDrag_def startWiring_def
        screenToWorld_def initialBuilder_def exampleRect_def Let_def)
  have found: "map_option positionOf (findNode initialState ''1'') =
      Some (Some \<lparr>px = 50, py = 50\<rparr>)"
    by (simp add: findNode_def initialState_def)
  have off: "dragOffset draggingBuilder_basic = \<lparr>px = 10, py = 10\<rparr>"
    by (simp add: draggingBuilder_basic_def)
  show ?thesis
    unfolding pan wire
    by (simp add: basic found off onMouseMove_def Let_def initialBuilder_def)
qed

text \<open>
  C6 (amended). A node is being dragged when \<open>draggingId\<close> is the non-empty identifier
  of a node that the builder's lookup finds, no wire is in progress and, in the builder
  with viewport, no pan is in progress and the zoom factor is not zero. Then a move event
  on the mounted canvas stores a position for that node. In the builder with viewport it
  is the world position of the pointer minus the grab offset, each coordinate raised to at
  least -500 and with no upper bound: when both coordinates are at least -500 the stored
  position is that difference exactly. In the builder of
  \<open>src/components/VisualBuilder.tsx\<close> it is the pointer position minus the grab offset,
  limited above by the width of the canvas minus 200 and its height minus 80, and then
  raised to at least 0.
\<close>

theorem drag_position:
  "(\<not> isPanning b \<and> \<not> truthy (connectingSourceId b) \<and> draggingId b = Some d \<and> d \<noteq> []
      \<and> findNode g d \<noteq> None \<and> zoom (viewport b) \<noteq> 0 \<longrightarrow>
      (let w = screenToWorld (Some rect) (viewport b) (clientX e) (clientY e);
           newX = px w - px (dragOffset b);
           newY = py w - py (dragOffset b);
           stored = map_option positionOf (findNode (snd (onMouseMove (Some rect) e (b, g))) d)
       in stored = Some (Some \<lparr>px = max (- 500) newX, py = max (- 500) newY\<rparr>)
          \<and> (- 500 \<le> newX \<and> - 500 \<le> newY \<longrightarrow> stored = Some (Some \<lparr>px = newX, py = newY\<rparr>))))
   \<and> (\<not> truthy (connectingSourceId b0) \<and> draggingId b0 = Some d \<and> d \<noteq> []
      \<and> findNode_basic g d \<noteq> None \<longrightarrow>
      map_option positionOf (findNode_basic (snd (onMouseMove_basic (Some rect) e (b0, g))) d) =
        Some (Some \<lparr>px = max 0 (min (clientX e - px (dragOffset b0)) (rect_width rect - 200)),
                    py = max 0 (min (clientY e - py (dragOffset b0)) (rect_height rect - 80))\<rparr>))"
proof (intro conjI impI)
  assume h: "\<not> isPanning b \<and> \<not> truthy (connectingSourceId b) \<and> draggingId b = Some d \<and> d \<noteq> []
      \<and> findNode g d \<noteq> None \<and> zoom (viewport b) \<noteq> 0"
  then have stored: "map_option positionOf (findNode (snd (onMouseMove (Some rect) e (b, g))) d) =
     Some (Some \<lparr>px = max (- 500)
                   (px (screenToWorld (Some rect) (viewport b) (clientX e) (clientY e))
                    - px (dragOffset b)),
                 py = max (- 500)
                   (py (screenToWorld (Some rect) (viewport b) (clientX e) (clientY e))
                    - py (dragOffset b))\<rparr>)"
    by (intro onMouseMove_drag) simp_all
  show "let w = screenToWorld (Some rect) (viewport b) (clientX e) (clientY e);
           newX = px w - px (dragOffset b);
           newY = py w - py (dragOffset b);
           stored = map_option positionOf (findNode (snd (onMouseMove (Some rect) e (b, g))) d)
       in stored = Some (Some \<lparr>px = max (- 500) newX, py = max (- 500) newY\<rparr>)
          \<and> (- 500 \<le> newX \<and> - 500 \<le> newY \<longrightarrow> stored = Some (Some \<lparr>px = newX, py = newY\<rparr>))"
    unfolding Let_def
  proof (intro conjI impI)
    show "map_option positionOf (findNode (snd (onMouseMove (Some rect) e (b, g))) d) =
        Some (Some \<lparr>px = max (- 500)
                   (px (screenToWorld (Some rect) (viewport b) (clientX e) (clientY e))
                    - px (dragOffset b)),
                 py = max (- 500)
                   (py (screenToWorld (Some rect) (viewport b) (clientX e) (clientY e))
                    - py (dragOffset b))\<rparr>)"
      by (rule stored)
  next
    assume "- 500 \<le> px (screenToWorld (Some rect) (viewport b) (clientX e) (clientY e))
                    - px (dragOffset b)
        \<and> - 500 \<le> py (screenToWorld (Some rect) (viewport b) (clientX e) (clientY e))
                    - py (dragOffset b)"
    then have "max (- 500) (px (screenToWorld (Some rect) (viewport b) (clientX e) (clientY e))
                    - px (dragOffset b)) =
          px (screenToWorld (Some rect) (viewport b) (clientX e) (clientY e)) - px (dragOffset b)"
      and "max (- 500) (py (screenToWorld (Some rect) (viewport b) (clientX e) (clientY e))
                    - py (dragOffset b)) =
          py (screenToWorld (Some rect) (viewport b) (clientX e) (clientY e)) - py (dragOffset b)"
      by simp_all
    with stored show "map_option positionOf
        (findNode (snd (onMouseMove (Some rect) e (b, g))) d) =
        Some (Some \<lparr>px = px (screenToWorld (Some rect) (viewport b) (clientX e) (clientY e))
                         - px (dragOffset b),
                    py = py (screenToWorld (Some rect) (viewport b) (clientX e) (clientY e))
                         - py (dragOffset b)\<rparr>)"
      by (simp only:)
  qed
next
  assume "\<not> truthy (connectingSourceId b0) \<and> draggingId b0 = Some d \<and> d \<noteq> []
      \<and> findNode_basic g d \<noteq> None"
  then show "map_option positionOf
      (findNode_basic (snd (onMouseMove_basic (Some rect) e (b0, g))) d) =
        Some (Some \<lparr>px = max 0 (min (clientX e - px (dragOffset b0)) (rect_width rect - 200)),
                    py = max 0 (min (clientY e - py (dragOffset b0)) (rect_height rect - 80))\<rparr>)"
    by (intro onMouseMove_basic_drag) simp_all
qed

theorem drag_position_witness:
  "map_option positionOf
     (findNode (snd (onMouseMove (Some exampleRect) \<lparr>clientX = 790, clientY = 590, button = 0\<rparr>
                      (draggingBuilder, initialState))) ''1'') =
     Some (Some \<lparr>px = 7890, py = 5890\<rparr>)
   \<and> map_option positionOf
     (findNode_basic
        (snd (onMouseMove_basic (Some exampleRect) \<lparr>clientX = 300, clientY = 200, button = 0\<rparr>
               (draggingBuilder_basic, initialState))) ''1'') =
     Some (Some \<lparr>px = 290, py = 190\<rparr>)"
proof -
  have full: "\<not> isPanning draggingBuilder \<and> \<not> truthy (connectingSourceId draggingBuilder)
      \<and> draggingId draggingBuilder = Some ''1'' \<and> ''1'' \<noteq> []
      \<and> findNode initialState ''1'' \<noteq> None \<and> zoom (viewport draggingBuilder) \<noteq> 0"
    by (simp add: draggingBuilder_def initialBuilder_def initialState_def findNode_def)
  have basic: "\<not> truthy (connectingSourceId draggingBuilder_basic)
      \<and> draggingId draggingBuilder_basic = Some ''1'' \<and> ''1'' \<noteq> []
      \<and> findNode_basic initialState ''1'' \<noteq> None"
    by (simp add: draggingBuilder_basic_def initialState_def findNode_basic_def)
  have w: "screenToWorld (Some exampleRect) (viewport draggingBuilder) 790 590 =
      \<lparr>px = 7900, py = 5900\<rparr>"
    by (simp add: screenToWorld_def draggingBuilder_def initialBuilder_def exampleRect_def)
  have off: "dragOffset draggingBuilder = \<lparr>px = 10, py = 10\<rparr>"
    "dragOffset draggingBuilder_basic = \<lparr>px = 10, py = 10\<rparr>"
    by (simp_all add: draggingBuilder_def draggingBuilder_basic_def)
  have r: "rect_width exampleRect = 800" "rect_height exampleRect = 600"
    by (simp_all add: exampleRect_def)
  from drag_position [of draggingBuilder "''1''" initialState exampleRect
      "\<lparr>clientX = 790, clientY = 590, button = 0\<rparr>" draggingBuilder_basic] full
  have "map_option positionOf
     (findNode (snd (onMouseMove (Some exampleRect) \<lparr>clientX = 790, clientY = 590, button = 0\<rparr>
                      (draggingBuilder, initialState))) ''1'') =
     Some (Some \<lparr>px = 7890, py = 5890\<rparr>)"
    by (simp add: Let_def w off)
  moreover from drag_position [of draggingBuilder "''1''" initialState exampleRect
      "\<lparr>clientX = 300, clientY = 200, button = 0\<rparr>" draggingBuilder_basic] basic
  have "map_option positionOf
     (findNode_basic
        (snd (onMouseMove_basic (Some exampleRect) \<lparr>clientX = 300, clientY = 200, button = 0\<rparr>
               (draggingBuilder_basic, initialState))) ''1'') =
     Some (Some \<lparr>px = 290, py = 190\<rparr>)"
    by (simp add: off r)
  ultimately show ?thesis
    by simp
qed

section \<open>Wiring\<close>

lemma connections_updateSourceNode: "connections (updateSourceNode i f g) = connections g"
  by (simp add: updateSourceNode_def)

lemma connections_updateTransformationNode:
  "connections (updateTransformationNode i f g) = connections g"
  by (simp add: updateTransformationNode_def)

lemma connections_updateTargetNode: "connections (updateTargetNode i f g) = connections g"
  by (simp add: updateTargetNode_def)

lemma onMouseMove_wire:
  "connections (snd (onMouseMove canvas e st)) = connections (snd st)
   \<and> connectingSourceId (fst (onMouseMove canvas e st)) = connectingSourceId (fst st)"
  by (cases st)
    (simp add: onMouseMove_def Let_def connections_updateSourceNode
      connections_updateTransformationNode connections_updateTargetNode split: option.splits)

lemma onMouseMove_basic_wire:
  "connections (snd (onMouseMove_basic canvas e st)) = connections (snd st)
   \<and> connectingSourceId (fst (onMouseMove_basic canvas e st)) = connectingSourceId (fst st)"
  by (cases st)
    (simp add: onMouseMove_basic_def Let_def connections_updateSourceNode
      connections_updateTargetNode split: option.splits)

lemma fold_onMouseMove_wire:
  "connections (snd (fold (onMouseMove canvas) moves st)) = connections (snd st)
   \<and> connectingSourceId (fst (fold (onMouseMove canvas) moves st)) = connectingSourceId (fst st)"
  by (induction moves arbitrary: st) (simp_all add: onMouseMove_wire)

lemma fold_onMouseMove_basic_wire:
  "connections (snd (fold (onMouseMove_basic canvas) moves st)) = connections (snd st)
   \<and> connectingSourceId (fst (fold (onMouseMove_basic canvas) moves st)) =
       connectingSourceId (fst st)"
  by (induction moves arbitrary: st) (simp_all add: onMouseMove_basic_wire)

lemma release_cancel:
  assumes "r = Elsewhere \<or> r = InputAnchor a" and "connectingSourceId (fst st) = Some a"
  shows "connections (snd (release uuid r st)) = connections (snd st)
     \<and> connectingSourceId (fst (release uuid r st)) = None
     \<and> mousePos (fst (release uuid r st)) = None"
  using assms by (cases st) (auto simp: onMouseUp_def endWiring_def)

lemma release_basic_cancel:
  assumes "r = Elsewhere \<or> r = InputAnchor a" and "connectingSourceId (fst st) = Some a"
  shows "connections (snd (release_basic uuid r st)) = connections (snd st)
     \<and> connectingSourceId (fst (release_basic uuid r st)) = None
     \<and> mousePos (fst (release_basic uuid r st)) = None"
  using assms by (cases st) (auto simp: onMouseUp_basic_def endWiring_def)

lemma connectingSourceId_startWiring_basic:
  "connectingSourceId (startWiring_basic canvas down a b) = Some a"
  by (cases canvas) (simp_all add: startWiring_basic_def)

text \<open>
  C7. A wire gesture that starts on the output handle of node \<open>a\<close> and is released
  anywhere but on the input handle of another node (on the canvas, a node body or an
  output handle, outside the canvas, or on the input handle of \<open>a\<close> itself) leaves the
  list of connections as it was before the gesture and ends with no connecting source and
  no preview point, in both builders.
\<close>

theorem wire_cancel:
  assumes "r = Elsewhere \<or> r = InputAnchor a"
  shows "connections (snd (wireGesture canvas down a moves uuid r (b, g))) = connections g
     \<and> connectingSourceId (fst (wireGesture canvas down a moves uuid r (b, g))) = None
     \<and> mousePos (fst (wireGesture canvas down a moves uuid r (b, g))) = None
     \<and> connections (snd (wireGesture_basic canvas down a moves uuid r (b0, g))) = connections g
     \<and> connectingSourceId (fst (wireGesture_basic canvas down a moves uuid r (b0, g))) = None
     \<and> mousePos (fst (wireGesture_basic canvas down a moves uuid r (b0, g))) = None"
proof -
  let ?s = "fold (onMouseMove canvas) moves (startWiring canvas down a b, g)"
  let ?t = "fold (onMouseMove_basic canvas) moves (startWiring_basic canvas down a b0, g)"
  have "connectingSourceId (fst ?s) = Some a" and c: "connections (snd ?s) = connections g"
    by (simp_all add: fold_onMouseMove_wire startWiring_def)
  from release_cancel [OF assms this(1), of uuid] c
  have full: "connections (snd (release uuid r ?s)) = connections g
     \<and> connectingSourceId (fst (release uuid r ?s)) = None
     \<and> mousePos (fst (release uuid r ?s)) = None"
    by simp
  have "connectingSourceId (fst ?t) = Some a" and c0: "connections (snd ?t) = connections g"
    by (simp_all add: fold_onMouseMove_basic_wire connectingSourceId_startWiring_basic)
  from release_basic_cancel [OF assms this(1), of uuid] c0
  have basic: "connections (snd (release_basic uuid r ?t)) = connections g
     \<and> connectingSourceId (fst (release_basic uuid r ?t)) = None
     \<and> mousePos (fst (release_basic uuid r ?t)) = None"
    by simp
  from full basic show ?thesis
    by (simp add: wireGesture_def wireGesture_basic_def)
qed

theorem wire_cancel_witness:
  "connections (snd (wireGesture (Some exampleRect) \<lparr>clientX = 260, clientY = 100, button = 0\<rparr>
      ''1'' [\<lparr>clientX = 300, clientY = 200, button = 0\<rparr>] ''u'' Elsewhere
      (initialBuilder, initialState))) = connections initialState
   \<and> connectingSourceId (fst (wireGesture (Some exampleRect)
      \<lparr>clientX = 260, clientY = 100, button = 0\<rparr>
      ''1'' [\<lparr>clientX = 300, clientY = 200, button = 0\<rparr>] ''u'' Elsewhere
      (initialBuilder, initialState))) = None
   \<and> connections (snd (wireGesture_basic (Some exampleRect)
      \<lparr>clientX = 260, clientY = 100, button = 0\<rparr>
      ''1'' [\<lparr>clientX = 300, clientY = 200, button = 0\<rparr>] ''u'' Elsewhere
      (initialBuilder_basic, initialState))) = connections initialState
   \<and> mousePos (fst (wireGesture_basic (Some exampleRect)
      \<lparr>clientX = 260, clientY = 100, button = 0\<rparr>
      ''1'' [\<lparr>clientX = 300, clientY = 200, button = 0\<rparr>] ''u'' Elsewhere
      (initialBuilder_basic, initialState))) = None"
proof -
  have r: "Elsewhere = Elsewhere \<or> Elsewhere = InputAnchor ''1''"
    by simp
  from wire_cancel [OF r, of "Some exampleRect" "\<lparr>clientX = 260, clientY = 100, button = 0\<rparr>"
      "[\<lparr>clientX = 300, clientY = 200, button = 0\<rparr>]" "''u''" initialBuilder initialState
      initialBuilder_basic]
  show ?thesis
    by simp
qed

text \<open>
  For comparison, the same gesture released on the input handle of another node adds the
  connection.
\<close>

lemma wire_commit_example:
  "connections (snd (wireGesture (Some exampleRect) \<lparr>clientX = 260, clientY = 100, button = 0\<rparr>
      ''1'' [\<lparr>clientX = 300, clientY = 200, button = 0\<rparr>] ''u'' (InputAnchor ''10'')
      (initialBuilder, initialState))) =
     connections initialState @ [\<lparr>cid = ''u'', sourceId = ''1'', targetId = ''10''\<rparr>]"
  by (simp add: wireGesture_def startWiring_def onMouseMove_def endWiring_def addConnection_def
      initialBuilder_def initialState_def Let_def)

section \<open>Reporting failures and validating the form\<close>

lemma includes_str_sublist: "includes_str s sub = sublist sub s"
  by (induction s) (simp_all add: sublist_Cons_right)

text \<open>
  C8. With the error message being the \<open>message\<close> of the error or, when that is absent
  or empty, its \<open>toString()\<close>: \<open>formatError\<close> returns the authentication text exactly
  when the message contains 401 or UNAUTHENTICATED; otherwise the rate-limit text exactly
  when it contains 429 or RESOURCE_EXHAUSTED; otherwise the content text exactly when it
  contains SAFETY or blocked; and otherwise "Generation Failed: " followed by the message.
\<close>

theorem formatError_categories:
  "(let m = errorMessage e;
        auth = (includes_str m ''401'' \<or> includes_str m ''UNAUTHENTICATED'');
        rate = (includes_str m ''429'' \<or> includes_str m ''RESOURCE_EXHAUSTED'');
        safety = (includes_str m ''SAFETY'' \<or> includes_str m ''blocked'')
    in (formatError e = ''Authentication Failed: Invalid API Key.'' \<longleftrightarrow> auth)
     \<and> (\<not> auth \<longrightarrow> (formatError e = ''Rate Limit Exceeded: Please wait a moment.'' \<longleftrightarrow> rate))
     \<and> (\<not> auth \<and> \<not> rate \<longrightarrow>
          (formatError e = ''Content Error: Request blocked by safety filters.'' \<longleftrightarrow> safety))
     \<and> (\<not> auth \<and> \<not> rate \<and> \<not> safety \<longrightarrow> formatError e = ''Generation Failed: '' @ m))"
  by (simp add: formatError_def Let_def)

theorem formatError_categories_witness:
  "formatError \<lparr>message = Some ''HTTP 401 and 429'', toString = ''Error''\<rparr> =
     ''Authentication Failed: Invalid API Key.''
   \<and> formatError \<lparr>message = None, toString = ''RESOURCE_EXHAUSTED''\<rparr> =
     ''Rate Limit Exceeded: Please wait a moment.''
   \<and> formatError \<lparr>message = Some '''', toString = ''was blocked''\<rparr> =
     ''Content Error: Request blocked by safety filters.''
   \<and> formatError \<lparr>message = Some ''timeout'', toString = ''Error: timeout''\<rparr> =
     ''Generation Failed: timeout''"
  using formatError_categories [of "\<lparr>message = Some ''HTTP 401 and 429'', toString = ''Error''\<rparr>"]
    formatError_categories [of "\<lparr>message = None, toString = ''RESOURCE_EXHAUSTED''\<rparr>"]
    formatError_categories [of "\<lparr>message = Some '''', toString = ''was blocked''\<rparr>"]
    formatError_categories [of "\<lparr>message = Some ''timeout'', toString = ''Error: timeout''\<rparr>"]
  by (simp add: Let_def errorMessage_def)

section \<open>Panning\<close>

text \<open>
  C9. A move event while panning adds the pointer's displacement since the last event to
  the two offsets of the viewport and records the pointer position; the zoom factor, the
  rest of the builder's state and the whole graph, so every node's stored position, are
  unchanged.
\<close>

theorem pan_frame:
  "isPanning b \<Longrightarrow>
   (let dx = clientX e - px (lastMouse b);
        dy = clientY e - py (lastMouse b);
        b' = fst (onMouseMove (Some rect) e (b, g));
        g' = snd (onMouseMove (Some rect) e (b, g))
    in vx (viewport b') = vx (viewport b) + dx
     \<and> vy (viewport b') = vy (viewport b) + dy
     \<and> zoom (viewport b') = zoom (viewport b)
     \<and> g' = g
     \<and> b' = b\<lparr>viewport := viewport b', lastMouse := \<lparr>px = clientX e, py = clientY e\<rparr>\<rparr>)"
  by (simp add: onMouseMove_def Let_def)

theorem pan_frame_witness:
  "viewport (fst (onMouseMove (Some exampleRect) \<lparr>clientX = 15, clientY = 18, button = 0\<rparr>
     (panningBuilder, initialState))) = \<lparr>vx = 5, vy = - 2, zoom = 1\<rparr>
   \<and> snd (onMouseMove (Some exampleRect) \<lparr>clientX = 15, clientY = 18, button = 0\<rparr>
     (panningBuilder, initialState)) = initialState"
proof -
  have p: "isPanning panningBuilder"
    by (simp add: panningBuilder_def)
  have "viewport panningBuilder = \<lparr>vx = 0, vy = 0, zoom = 1\<rparr>"
    and "lastMouse panningBuilder = \<lparr>px = 10, py = 20\<rparr>"
    by (simp_all add: panningBuilder_def initialBuilder_def)
  with pan_frame [OF p, of "\<lparr>clientX = 15, clientY = 18, button = 0\<rparr>" exampleRect initialState]
  show ?thesis
    by (cases "viewport (fst (onMouseMove (Some exampleRect)
          \<lparr>clientX = 15, clientY = 18, button = 0\<rparr> (panningBuilder, initialState)))")
      (simp add: Let_def)
qed

section \<open>Submitting the form\<close>

text \<open>
  C10. \<open>handleSubmit\<close> calls the generation service, once and with the form state,
  exactly when the trimmed technical requirements, the list of data sources and the list
  of data targets are all non-empty. Otherwise it makes no call and only replaces the
  error list, by one message for each condition that fails, in this order. The form state
  is the same afterwards in either case.
\<close>

theorem handleSubmit_guard:
  "(let f = formState a;
        noTech = (trim (techRequirements f) = []);
        noSource = (dataSources f = []);
        noTarget = (dataTargets f = []);
        a' = fst (handleSubmit generateSolution a);
        calls = snd (handleSubmit generateSolution a)
    in calls = (if noTech \<or> noSource \<or> noTarget then [] else [(f, includeDiagram a)])
     \<and> formState a' = f
     \<and> (noTech \<or> noSource \<or> noTarget \<longrightarrow>
          a' = a\<lparr>errors :=
                  (if noTech then [''Technical Requirements are mandatory.''] else [])
                  @ (if noSource then [''At least one Data Source is required.''] else [])
                  @ (if noTarget then [''At least one Data Target is required.''] else [])\<rparr>
          \<and> length (errors a') =
              (if noTech then 1 else 0) + (if noSource then 1 else 0)
              + (if noTarget then 1 else 0)))"
  by (simp add: handleSubmit_def Let_def split: sum.splits)

theorem handleSubmit_guard_witness:
  "handleSubmit (\<lambda>f d. Inr ''doc'') blankApp =
     (blankApp\<lparr>errors := [''Technical Requirements are mandatory.'',
                           ''At least one Data Source is required.'',
                           ''At least one Data Target is required.'']\<rparr>, [])
   \<and> handleSubmit (\<lambda>f d. Inr ''doc'') nbspApp =
     (nbspApp\<lparr>errors := [''Technical Requirements are mandatory.'']\<rparr>, [])
   \<and> snd (handleSubmit (\<lambda>f d. Inr ''doc'') readyApp) = [(formState readyApp, True)]
   \<and> formState (fst (handleSubmit (\<lambda>f d. Inr ''doc'') readyApp)) = formState readyApp"
proof -
  have blank: "trim (techRequirements (formState blankApp)) = []"
    "dataSources (formState blankApp) = []" "dataTargets (formState blankApp) = []"
    by (simp_all add: blankApp_def emptyState_def trim_def isWhiteSpace_def)
  have nbsp: "trim (techRequirements (formState nbspApp)) = []"
    "dataSources (formState nbspApp) \<noteq> []" "dataTargets (formState nbspApp) \<noteq> []"
    by (simp_all add: nbspApp_def initialState_def trim_def isWhiteSpace_def)
  have ready: "trim (techRequirements (formState readyApp)) \<noteq> []"
    "dataSources (formState readyApp) \<noteq> []" "dataTargets (formState readyApp) \<noteq> []"
    "includeDiagram readyApp = True"
    by (simp_all add: readyApp_def initialState_def trim_def isWhiteSpace_def)
  from handleSubmit_guard [of blankApp "\<lambda>f d. Inr ''doc''"] blank
  have "fst (handleSubmit (\<lambda>f d. Inr ''doc'') blankApp) =
      blankApp\<lparr>errors := [''Technical Requirements are mandatory.'',
                           ''At least one Data Source is required.'',
                           ''At least one Data Target is required.'']\<rparr>"
    and "snd (handleSubmit (\<lambda>f d. Inr ''doc'') blankApp) = []"
    by (simp_all add: Let_def)
  then have first: "handleSubmit (\<lambda>f d. Inr ''doc'') blankApp =
     (blankApp\<lparr>errors := [''Technical Requirements are mandatory.'',
                           ''At least one Data Source is required.'',
                           ''At least one Data Target is required.'']\<rparr>, [])"
    by (simp add: prod_eq_iff)
  from handleSubmit_guard [of nbspApp "\<lambda>f d. Inr ''doc''"] nbsp
  have "fst (handleSubmit (\<lambda>f d. Inr ''doc'') nbspApp) =
      nbspApp\<lparr>errors := [''Technical Requirements are mandatory.'']\<rparr>"
    and "snd (handleSubmit (\<lambda>f d. Inr ''doc'') nbspApp) = []"
    by (simp_all add: Let_def)
  then have second: "handleSubmit (\<lambda>f d. Inr ''doc'') nbspApp =
     (nbspApp\<lparr>errors := [''Technical Requirements are mandatory.'']\<rparr>, [])"
    by (simp add: prod_eq_iff)
  from handleSubmit_guard [of readyApp "\<lambda>f d. Inr ''doc''"] ready
  have "snd (handleSubmit (\<lambda>f d. Inr ''doc'') readyApp) = [(formState readyApp, True)]"
    and "formState (fst (handleSubmit (\<lambda>f d. Inr ''doc'') readyApp)) = formState readyApp"
    by (simp_all add: Let_def)
  with first second show ?thesis
    by simp
qed

end
